theory Spec2Isabelle
  imports Main "HOL-Library.Sublist"
begin

section \<open>The arXiv listing spider: a two-stage relevance filter\<close>

text \<open>
  The development embeds \<^verbatim>\<open>daily_arxiv/spiders/arxiv.py\<close>: the spider's
  configuration (\<^verbatim>\<open>__init__\<close>), the listing parser \<^verbatim>\<open>parse\<close> and the
  abstract-page callback \<^verbatim>\<open>parse_abstract_page\<close>.

  The HTML selectors belong to the crawling framework. A page enters the model as the
  values the selectors return: \<open>None\<close> where \<^verbatim>\<open>.get()\<close> finds nothing, the
  selected text otherwise. A \<open>string\<close> is read as a Python string of code points
  below 256, one \<open>char\<close> for each; text with other characters is outside the model.
\<close>

subsection \<open>Python string primitives\<close>

text \<open>\<^verbatim>\<open>if s:\<close> on a value that is \<^verbatim>\<open>None\<close> or a string.\<close>

fun truthy :: "string option \<Rightarrow> bool" where
  "truthy None = False"
| "truthy (Some s) = (s \<noteq> [])"

text \<open>\<^verbatim>\<open>sub in s\<close> on strings is \<^const>\<open>sublist\<close>: a contiguous occurrence.\<close>

text \<open>
  \<^verbatim>\<open>s.strip()\<close> removes the characters for which \<^verbatim>\<open>str.isspace\<close> holds; below
  256 these are the code points 9 to 13, 28 to 32, 133 and 160.
\<close>

definition py_isspace :: "char \<Rightarrow> bool" where
  "py_isspace c = (of_char c \<in> {9, 10, 11, 12, 13, 28, 29, 30, 31, 32, 133, 160 :: nat})"

definition py_strip :: "string \<Rightarrow> string" where
  "py_strip s = rev (dropWhile py_isspace (rev (dropWhile py_isspace s)))"

text \<open>
  \<^verbatim>\<open>s.lower()\<close>: below 256 the capital letters are the code points 65 to 90, 192 to
  214 and 216 to 222, and each has its small letter 32 places higher.
\<close>

definition lower_char :: "char \<Rightarrow> char" where
  "lower_char c =
     (let n = of_char c :: nat
      in if (65 \<le> n \<and> n \<le> 90) \<or> (192 \<le> n \<and> n \<le> 214) \<or> (216 \<le> n \<and> n \<le> 222)
         then char_of (n + 32) else c)"

definition py_lower :: "string \<Rightarrow> string" where
  "py_lower s = map lower_char s"

text \<open>
  \<^verbatim>\<open>s.replace(old, new)\<close>: the occurrences of \<open>old\<close> are found from the left
  and do not overlap. With an empty \<open>old\<close>, Python puts \<open>new\<close> around every character.
\<close>

fun replace_scan :: "string \<Rightarrow> string \<Rightarrow> string \<Rightarrow> string" where
  "replace_scan old new [] = []"
| "replace_scan old new (c # cs) =
     (if prefix old (c # cs) then new @ replace_scan old new (drop (length old - 1) cs)
      else c # replace_scan old new cs)"

definition py_replace :: "string \<Rightarrow> string \<Rightarrow> string \<Rightarrow> string" where
  "py_replace old new s =
     (if old = [] then new @ concat (map (\<lambda>c. c # new) s) else replace_scan old new s)"

text \<open>
  \<^verbatim>\<open>s.split(sep)\<close> for a non-empty \<open>sep\<close> (every call of the spider passes a
  non-empty literal): \<open>cur\<close> is the piece being read. The result is never empty, so
  \<^verbatim>\<open>[-1]\<close> on it is \<^const>\<open>last\<close>.
\<close>

fun split_scan :: "string \<Rightarrow> string \<Rightarrow> string \<Rightarrow> string list" where
  "split_scan sep cur [] = [cur]"
| "split_scan sep cur (c # cs) =
     (if prefix sep (c # cs) then cur # split_scan sep [] (drop (length sep - 1) cs)
      else split_scan sep (cur @ [c]) cs)"

definition py_split :: "string \<Rightarrow> string \<Rightarrow> string list" where
  "py_split sep s = split_scan sep [] s"

text \<open>
  \<^verbatim>\<open>int(s)\<close> on a string. The white space that \<^verbatim>\<open>int\<close> drops around the number
  is not that of \<^verbatim>\<open>strip\<close>: below 256 it is the code points 9 to 13, 32, 133 and
  160, and not 28 to 31. One sign is allowed, then decimal digits, where single
  underscores may stand between digits. More than 4300 digits (the default limit of the
  interpreter, which counts leading zeros and neither sign nor underscores) and anything
  else raise \<^verbatim>\<open>ValueError\<close>, here \<open>None\<close>.
\<close>

definition int_isspace :: "char \<Rightarrow> bool" where
  "int_isspace c = (of_char c \<in> {9, 10, 11, 12, 13, 32, 133, 160 :: nat})"

definition is_digit :: "char \<Rightarrow> bool" where
  "is_digit c = (let n = of_char c :: nat in 48 \<le> n \<and> n \<le> 57)"

definition digit_val :: "char \<Rightarrow> int" where
  "digit_val c = int (of_char c) - 48"

fun digits_ok :: "bool \<Rightarrow> string \<Rightarrow> bool" where
  "digits_ok prev [] = prev"
| "digits_ok prev (c # cs) =
     (if is_digit c then digits_ok True cs
      else if c = CHR ''_'' \<and> prev then digits_ok False cs
      else False)"

definition digits_value :: "string \<Rightarrow> int" where
  "digits_value ds = foldl (\<lambda>acc c. 10 * acc + digit_val c) 0 (filter is_digit ds)"

definition int_of_digits :: "string \<Rightarrow> int option" where
  "int_of_digits ds =
     (if digits_ok False ds \<and> length (filter is_digit ds) \<le> 4300
      then Some (digits_value ds) else None)"

definition py_int :: "string \<Rightarrow> int option" where
  "py_int s =
     (case rev (dropWhile int_isspace (rev (dropWhile int_isspace s))) of
        [] \<Rightarrow> None
      | c # cs \<Rightarrow>
          if c = CHR ''-'' then map_option uminus (int_of_digits cs)
          else if c = CHR ''+'' then int_of_digits cs
          else int_of_digits (c # cs))"

text \<open>
  \<^verbatim>\<open>re.findall(r'\(([^)]+)\)', s)\<close>: from the left, an opening parenthesis, the
  longest run of characters other than the closing one, which must be non-empty and
  followed by a closing parenthesis; the run is the match, and the search goes on behind
  that closing parenthesis.
\<close>

function findall_parens :: "string \<Rightarrow> string list" where
  "findall_parens [] = []"
| "findall_parens (c # cs) =
     (if c = CHR ''('' \<and> takeWhile (\<lambda>x. x \<noteq> CHR '')'') cs \<noteq> []
         \<and> dropWhile (\<lambda>x. x \<noteq> CHR '')'') cs \<noteq> []
      then takeWhile (\<lambda>x. x \<noteq> CHR '')'') cs
             # findall_parens (tl (dropWhile (\<lambda>x. x \<noteq> CHR '')'') cs))
      else findall_parens cs)"
  by pat_completeness auto
termination
proof (relation "measure length")
  fix c :: char and cs :: string
  have "length (dropWhile (\<lambda>x. x \<noteq> CHR '')'') cs) \<le> length cs"
    by (rule length_dropWhile_le)
  then show "(tl (dropWhile (\<lambda>x. x \<noteq> CHR '')'') cs), c # cs) \<in> measure length"
    by simp
qed simp_all

subsection \<open>Data: items, requests, log lines, pages\<close>

text \<open>
  \<^verbatim>\<open>item_data = {"id": arxiv_id, "categories": categories}\<close>. The request of the
  second stage carries the dictionary \<^verbatim>\<open>meta\<close> with the keys
  \<^verbatim>\<open>'item_data'\<close> and \<^verbatim>\<open>'title_prefix'\<close>; a key that is absent is \<open>None\<close>.
  Its callback is always \<^verbatim>\<open>parse_abstract_page\<close>.
\<close>

record item =
  item_id :: string
  item_categories :: "string list"

record meta =
  item_data :: "item option"
  title_prefix :: "string option"

record request =
  url :: string
  request_meta :: meta

datatype level = Debug | Info | Warning

text \<open>
  What a callback does that its caller can see, in program order: the lines it hands to
  \<^verbatim>\<open>self.logger\<close> and the objects it yields.
\<close>

datatype event = Log level string | Yield_item item | Yield_request request

datatype py_error = ValueError | KeyError

text \<open>
  A listing page. \<open>nav_hrefs\<close> has, for every \<^verbatim>\<open>li\<close> of
  \<^verbatim>\<open>div[id=dlpage] ul li\<close>, the value of \<^verbatim>\<open>li.css("a::attr(href)").get()\<close>;
  \<open>dts\<close> are the \<^verbatim>\<open>dl dt\<close> elements in document order. The record also
  holds the two functions of the framework that \<^verbatim>\<open>parse\<close> applies to a link:
  \<open>urljoin\<close> is \<^verbatim>\<open>response.urljoin\<close>, and \<open>safe_url_string\<close> is the escaping
  that the constructor of \<^verbatim>\<open>scrapy.Request\<close> applies to its \<^verbatim>\<open>url\<close>. Of a \<^verbatim>\<open>dt\<close>: \<open>paper_anchor\<close> is
  \<^verbatim>\<open>a[name^='item']::attr(name)\<close>, \<open>abstract_link\<close> is
  \<^verbatim>\<open>a[title='Abstract']::attr(href)\<close>, \<open>following_dd\<close> the first following sibling
  \<^verbatim>\<open>dd\<close>. Of a \<^verbatim>\<open>dd\<close>: \<open>primary_subject\<close> is
  \<^verbatim>\<open>.list-subjects .primary-subject::text\<close>, \<open>list_subjects\<close> is
  \<^verbatim>\<open>.list-subjects::text\<close>, \<open>list_title\<close> the string value of
  \<^verbatim>\<open>.list-title\<close>.
\<close>

record dd =
  primary_subject :: "string option"
  list_subjects :: "string option"
  list_title :: "string option"

record dt =
  paper_anchor :: "string option"
  abstract_link :: "string option"
  following_dd :: "dd option"

record listing_response =
  nav_hrefs :: "string option list"
  dts :: "dt list"
  urljoin :: "string \<Rightarrow> string"
  safe_url_string :: "string \<Rightarrow> string"

text \<open>
  An abstract page: the string value of \<^verbatim>\<open>blockquote.abstract\<close> and the
  \<^verbatim>\<open>meta\<close> of the request it answers.
\<close>

record abstract_response =
  blockquote_abstract :: "string option"
  response_meta :: meta

text \<open>
  The spider: the two attributes that \<^verbatim>\<open>__init__\<close> sets and the callbacks read,
  and the lines its logger has received. It runs in one interpreter, and \<open>set_order\<close>
  is \<^verbatim>\<open>list(set(xs))\<close> in that interpreter: the distinct elements of \<open>xs\<close> in the
  order in which the interpreter iterates over the set, which depends on the seed of
  its string hashing and differs from one run of the interpreter to another.
\<close>

record spider =
  target_categories :: "string set"
  my_keywords :: "string list"
  logged :: "(level \<times> string) list"
  set_order :: "string list \<Rightarrow> string list"

subsection \<open>Configuration\<close>

text \<open>
  The list literal of \<^verbatim>\<open>__init__\<close>. Python joins adjacent string literals that no
  comma separates: \<^verbatim>\<open>"strong lensing" "lens model"\<close> (the comment between them does
  not separate them) and \<^verbatim>\<open>"interferometer" "Dust"\<close> are one element each, written
  here with \<open>@\<close>.
\<close>

definition keyword_literal :: "string list" where
  "keyword_literal =
     [''strong lens'', ''strong gravitational lens'', ''strong lensing'' @
      ''lens model'', ''lensing'',
      ''dark matter'', ''DM halo'',
      ''ALMA'', ''SKA'', ''interferometer'' @
      ''Dust'', ''dusty'',
      ''DSFGs'', ''submillimeter'',
      ''high-redshift'', ''z >'', ''z>'',
      ''polarization'', ''polarized'', ''polarised'',
      ''gas'', ''molecular'', ''molecular gas'',
      ''SPT'', ''Herschel'', ''JWST'', ''Euclid'', ''CSST'']"

text \<open>
  \<^verbatim>\<open>__init__\<close>, given \<^verbatim>\<open>os.environ.get("CATEGORIES")\<close>. (\<^verbatim>\<open>start_urls\<close> is
  read by the engine only and is left out.) The spider it builds runs in an interpreter
  that iterates over a set in the order of \<^const>\<open>remdups\<close>; the spider of another
  interpreter is \<open>sp\<lparr>set_order := order\<rparr>\<close>.
\<close>

definition init :: "string option \<Rightarrow> spider" where
  "init env =
     \<lparr>target_categories =
        set (map py_strip (py_split '','' (case env of None \<Rightarrow> ''astro-ph.GA, astro-ph.CO''
                                                   | Some v \<Rightarrow> v))),
      my_keywords = keyword_literal,
      logged = [],
      set_order = remdups\<rparr>"

subsection \<open>The listing parser\<close>

text \<open>
  The first loop of \<^verbatim>\<open>parse\<close>: the integers behind the last \<^verbatim>\<open>item\<close> of the
  navigation links, in document order. \<^verbatim>\<open>int\<close> raises on a suffix that is no
  integer, which ends \<^verbatim>\<open>parse\<close>.
\<close>

fun collect_anchors :: "string option list \<Rightarrow> py_error + int list" where
  "collect_anchors [] = Inr []"
| "collect_anchors (href # hrefs) =
     (if truthy href \<and> sublist ''item'' (the href) then
        (case py_int (last (py_split ''item'' (the href))) of
           None \<Rightarrow> Inl ValueError
         | Some n \<Rightarrow>
             (case collect_anchors hrefs of
                Inl e \<Rightarrow> Inl e
              | Inr anchors \<Rightarrow> Inr (n # anchors)))
      else collect_anchors hrefs)"

text \<open>
  Lines 68 to 75: the subjects text, with its fallback, and the categories parsed from
  it, listed by \<^verbatim>\<open>list(set(xs))\<close> in the order of the spider's interpreter.
\<close>

definition subjects_text_of :: "dd \<Rightarrow> string option" where
  "subjects_text_of d =
     (if truthy (primary_subject d) then primary_subject d else list_subjects d)"

definition categories_of :: "spider \<Rightarrow> dd \<Rightarrow> string list" where
  "categories_of sp d =
     (if truthy (subjects_text_of d)
      then set_order sp (findall_parens (the (subjects_text_of d)))
      else [])"

text \<open>Line 85, the category gate.\<close>

definition category_mismatch :: "spider \<Rightarrow> dd \<Rightarrow> bool" where
  "category_mismatch sp d =
     (set (categories_of sp d) \<inter> target_categories sp = {} \<and> truthy (subjects_text_of d))"

text \<open>Lines 97 to 100.\<close>

definition clean_title_of :: "string option \<Rightarrow> string" where
  "clean_title_of title_text =
     (if truthy title_text
      then py_lower (py_strip (py_replace ''Title:'' [] (the title_text)))
      else [])"

text \<open>
  Lines 103 to 107, the loop over \<^verbatim>\<open>self.my_keywords\<close> with its \<^verbatim>\<open>break\<close>. The
  second component is the flag the loop computes; the first lists the patterns whose test
  \<^verbatim>\<open>kw.lower() in clean_title\<close> the loop has evaluated, in the order of evaluation.
\<close>

fun title_loop :: "string list \<Rightarrow> string \<Rightarrow> string list \<times> bool" where
  "title_loop [] clean_title = ([], False)"
| "title_loop (kw # kws) clean_title =
     (if sublist (py_lower kw) clean_title then ([kw], True)
      else (case title_loop kws clean_title of (tested, hit) \<Rightarrow> (kw # tested, hit)))"

definition is_title_interested :: "spider \<Rightarrow> string \<Rightarrow> bool" where
  "is_title_interested sp clean_title = snd (title_loop (my_keywords sp) clean_title)"

text \<open>
  The constructor of \<^verbatim>\<open>scrapy.Request\<close>, as far as \<^verbatim>\<open>parse\<close> reaches it: it
  escapes the URL and raises \<^verbatim>\<open>ValueError\<close> when the escaped URL has neither
  \<^verbatim>\<open>://\<close> in it nor \<^verbatim>\<open>about:\<close> or \<^verbatim>\<open>data:\<close> in front.
\<close>

definition missing_scheme :: "string \<Rightarrow> bool" where
  "missing_scheme u =
     (\<not> sublist ''://'' u \<and> \<not> prefix ''about:'' u \<and> \<not> prefix ''data:'' u)"

definition new_request :: "listing_response \<Rightarrow> string \<Rightarrow> meta \<Rightarrow> py_error + request" where
  "new_request response u m =
     (if missing_scheme (safe_url_string response u) then Inl ValueError
      else Inr \<lparr>url = safe_url_string response u, request_meta = m\<rparr>)"

text \<open>
  Lines 109 to 124: yield the item, or make and yield the request for the abstract page.
  \<open>Inl\<close> is the exception of the constructor, before which this turn yields nothing.
\<close>

definition title_outcome ::
  "spider \<Rightarrow> listing_response \<Rightarrow> string \<Rightarrow> item \<Rightarrow> string \<Rightarrow> py_error + event list" where
  "title_outcome sp response link data clean_title =
     (if is_title_interested sp clean_title then
        Inr [Log Info (''Found INTERESTING paper (by Title) '' @ item_id data @ '': ''
                         @ take 50 clean_title @ ''...''),
             Yield_item data]
      else
        (case new_request response (urljoin response link)
                \<lparr>item_data = Some data, title_prefix = Some (take 30 clean_title)\<rparr> of
           Inl e \<Rightarrow> Inl e
         | Inr req \<Rightarrow> Inr [Yield_request req]))"

text \<open>The events of these lines, none when the constructor raises.\<close>

definition title_decision ::
  "spider \<Rightarrow> listing_response \<Rightarrow> string \<Rightarrow> item \<Rightarrow> string \<Rightarrow> event list" where
  "title_decision sp response link data clean_title =
     (case title_outcome sp response link data clean_title of
        Inl e \<Rightarrow> []
      | Inr evs \<Rightarrow> evs)"

text \<open>
  The body of the second loop, for one \<^verbatim>\<open>dt\<close>: \<open>Inr\<close> the events of this turn
  (none after a \<^verbatim>\<open>continue\<close>), \<open>Inl\<close> the exception of \<^verbatim>\<open>int\<close> or of the
  request constructor.
\<close>

definition parse_dt ::
  "spider \<Rightarrow> listing_response \<Rightarrow> int list \<Rightarrow> dt \<Rightarrow> py_error + event list" where
  "parse_dt sp response anchors paper_dt =
     (if \<not> truthy (paper_anchor paper_dt) then Inr []
      else
        (case py_int (last (py_split ''item'' (the (paper_anchor paper_dt)))) of
           None \<Rightarrow> Inl ValueError
         | Some paper_id \<Rightarrow>
             if anchors \<noteq> [] \<and> paper_id \<ge> last anchors then Inr []
             else if \<not> truthy (abstract_link paper_dt) then Inr []
             else
               (case following_dd paper_dt of
                  None \<Rightarrow> Inr []
                | Some paper_dd \<Rightarrow>
                    let arxiv_id = last (py_split ''/'' (the (abstract_link paper_dt)));
                        data = \<lparr>item_id = arxiv_id,
                                item_categories = categories_of sp paper_dd\<rparr>
                    in
                      if category_mismatch sp paper_dd then
                        Inr [Log Debug (''Skipped paper '' @ arxiv_id @ '' (category mismatch)'')]
                      else
                        title_outcome sp response (the (abstract_link paper_dt)) data
                          (clean_title_of (list_title paper_dd)))))"

text \<open>
  The second loop and \<^verbatim>\<open>parse\<close>: the events up to the end of the page or up to an
  exception, and that exception.
\<close>

fun parse_dts ::
  "spider \<Rightarrow> listing_response \<Rightarrow> int list \<Rightarrow> dt list \<Rightarrow> event list \<times> py_error option" where
  "parse_dts sp response anchors [] = ([], None)"
| "parse_dts sp response anchors (paper_dt # rest) =
     (case parse_dt sp response anchors paper_dt of
        Inl e \<Rightarrow> ([], Some e)
      | Inr evs \<Rightarrow>
          (case parse_dts sp response anchors rest of
             (evs', err) \<Rightarrow> (evs @ evs', err)))"

definition parse :: "spider \<Rightarrow> listing_response \<Rightarrow> event list \<times> py_error option" where
  "parse sp response =
     (case collect_anchors (nav_hrefs response) of
        Inl e \<Rightarrow> ([], Some e)
      | Inr anchors \<Rightarrow> parse_dts sp response anchors (dts response))"

subsection \<open>The abstract page\<close>

text \<open>Line 140.\<close>

definition clean_abstract_of :: "string \<Rightarrow> string" where
  "clean_abstract_of abstract_text =
     py_lower (py_strip (py_replace ''Abstract:'' [] abstract_text))"

text \<open>Lines 143 to 147, the second copy of the loop, read as \<^const>\<open>title_loop\<close> is.\<close>

fun abstract_loop :: "string list \<Rightarrow> string \<Rightarrow> string list \<times> bool" where
  "abstract_loop [] clean_abstract = ([], False)"
| "abstract_loop (kw # kws) clean_abstract =
     (if sublist (py_lower kw) clean_abstract then ([kw], True)
      else (case abstract_loop kws clean_abstract of (tested, hit) \<Rightarrow> (kw # tested, hit)))"

definition is_abstract_interested :: "spider \<Rightarrow> string \<Rightarrow> bool" where
  "is_abstract_interested sp clean_abstract =
     snd (abstract_loop (my_keywords sp) clean_abstract)"

text \<open>
  \<^verbatim>\<open>parse_abstract_page\<close>. Reading a key that \<^verbatim>\<open>response.meta\<close> lacks raises
  \<^verbatim>\<open>KeyError\<close> before anything else happens.
\<close>

definition parse_abstract_page :: "spider \<Rightarrow> abstract_response \<Rightarrow> py_error + event list" where
  "parse_abstract_page sp response =
     (case item_data (response_meta response) of
        None \<Rightarrow> Inl KeyError
      | Some data \<Rightarrow>
          (case title_prefix (response_meta response) of
             None \<Rightarrow> Inl KeyError
           | Some prefix_of_title \<Rightarrow>
               if truthy (blockquote_abstract response) then
                 (if is_abstract_interested sp
                       (clean_abstract_of (the (blockquote_abstract response)))
                  then
                    Inr [Log Info (''Found INTERESTING paper (by Abstract) '' @ item_id data
                                     @ '': '' @ prefix_of_title @ ''...''),
                         Yield_item data]
                  else
                    Inr [Log Info (''Skipped paper '' @ item_id data
                                     @ '': Keywords not found in Title or Abstract'')])
               else
                 Inr [Log Warning (''Could not extract abstract for '' @ item_id data)]))"

subsection \<open>What a caller sees of the events\<close>

fun emitted :: "event list \<Rightarrow> item list" where
  "emitted [] = []"
| "emitted (Yield_item data # evs) = data # emitted evs"
| "emitted (Yield_request req # evs) = emitted evs"
| "emitted (Log lvl msg # evs) = emitted evs"

fun requested :: "event list \<Rightarrow> request list" where
  "requested [] = []"
| "requested (Yield_request req # evs) = req # requested evs"
| "requested (Yield_item data # evs) = requested evs"
| "requested (Log lvl msg # evs) = requested evs"

fun logs_of :: "event list \<Rightarrow> (level \<times> string) list" where
  "logs_of [] = []"
| "logs_of (Log lvl msg # evs) = (lvl, msg) # logs_of evs"
| "logs_of (Yield_item data # evs) = logs_of evs"
| "logs_of (Yield_request req # evs) = logs_of evs"

text \<open>
  A call of \<^verbatim>\<open>parse\<close> as a step on the spider: what the engine receives, and the
  spider afterwards. No statement of \<^verbatim>\<open>parse\<close> assigns to an attribute of
  \<^verbatim>\<open>self\<close>; the logger receives the lines.
\<close>

definition run_parse ::
  "spider \<Rightarrow> listing_response \<Rightarrow> (event list \<times> py_error option) \<times> spider" where
  "run_parse sp response =
     (parse sp response, sp\<lparr>logged := logged sp @ logs_of (fst (parse sp response))\<rparr>)"

fun run_parses :: "spider \<Rightarrow> listing_response list \<Rightarrow> spider" where
  "run_parses sp [] = sp"
| "run_parses sp (response # responses) = run_parses (snd (run_parse sp response)) responses"

subsection \<open>The crawl engine between the two stages\<close>

text \<open>
  Modelled from the spec: the crawl engine, which is not part of the repository. It
  dereferences a yielded request through the transport and calls the request's callback
  with a response that carries the request's \<^verbatim>\<open>meta\<close> unchanged, once for every
  delivery of the page. Section 5 of the specification guarantees at least one delivery
  for a fetch that succeeds and leaves a failing fetch to the engine, so a request is
  answered by no page, by one page, or by a page delivered several times.
  \<open>pages req\<close> lists, for the deliveries in their order, the value of the abstract
  selector on the delivered page. An exception of the callback stays with the engine.
\<close>

definition deliver :: "request \<Rightarrow> string option \<Rightarrow> abstract_response" where
  "deliver req block = \<lparr>blockquote_abstract = block, response_meta = request_meta req\<rparr>"

definition callback_run :: "spider \<Rightarrow> request \<Rightarrow> string option \<Rightarrow> event list" where
  "callback_run sp req block =
     (case parse_abstract_page sp (deliver req block) of
        Inl e \<Rightarrow> []
      | Inr evs \<Rightarrow> evs)"

fun deliveries ::
  "spider \<Rightarrow> (request \<Rightarrow> string option list) \<Rightarrow> event \<Rightarrow> event list" where
  "deliveries sp pages (Yield_request req) = concat (map (callback_run sp req) (pages req))"
| "deliveries sp pages (Yield_item data) = []"
| "deliveries sp pages (Log lvl msg) = []"

text \<open>The events of a listing entry followed by those of the callbacks it causes.\<close>

definition chain_all ::
  "spider \<Rightarrow> (request \<Rightarrow> string option list) \<Rightarrow> event list \<Rightarrow> event list" where
  "chain_all sp pages evs = evs @ concat (map (deliveries sp pages) evs)"

text \<open>
  The same for an engine that delivers at most one page for a request: \<open>fetch req\<close> is
  \<open>None\<close> when no page arrives, else the value of the abstract selector on the page.
\<close>

fun callback_events ::
  "spider \<Rightarrow> (request \<Rightarrow> string option option) \<Rightarrow> event \<Rightarrow> event list" where
  "callback_events sp fetch (Yield_request req) =
     (case fetch req of
        None \<Rightarrow> []
      | Some block \<Rightarrow> callback_run sp req block)"
| "callback_events sp fetch (Yield_item data) = []"
| "callback_events sp fetch (Log lvl msg) = []"

definition chain ::
  "spider \<Rightarrow> (request \<Rightarrow> string option option) \<Rightarrow> event list \<Rightarrow> event list" where
  "chain sp fetch evs = evs @ concat (map (callback_events sp fetch) evs)"

text \<open>One listing page through both stages, each requested page delivered at most once.\<close>

definition crawl_page ::
  "spider \<Rightarrow> (request \<Rightarrow> string option option) \<Rightarrow> listing_response \<Rightarrow> event list" where
  "crawl_page sp fetch response = chain sp fetch (fst (parse sp response))"

subsection \<open>The keyword test and the normalisations as the specification words them\<close>

text \<open>
  A case-insensitive substring match: pattern and text are compared with letter case
  set aside. The keyword test looks for the first pattern of the list, in list order,
  that matches, and succeeds when there is one.
\<close>

definition ci_substring :: "string \<Rightarrow> string \<Rightarrow> bool" where
  "ci_substring pattern text = sublist (py_lower pattern) (py_lower text)"

definition first_hit :: "string list \<Rightarrow> string \<Rightarrow> string option" where
  "first_hit patterns text = find (\<lambda>pattern. ci_substring pattern text) patterns"

definition keyword_test :: "string list \<Rightarrow> string \<Rightarrow> bool" where
  "keyword_test patterns text = (first_hit patterns text \<noteq> None)"

text \<open>
  The normalised title: a leading label \<^verbatim>\<open>Title:\<close> stripped if present, trimmed,
  lowercased.
\<close>

definition normalized_title :: "string \<Rightarrow> string" where
  "normalized_title title_text =
     py_lower (py_strip (if prefix ''Title:'' title_text
                         then drop (length ''Title:'') title_text else title_text))"

text \<open>
  The normalised abstract: a leading label \<^verbatim>\<open>Abstract:\<close> stripped, trimmed,
  lowercased.
\<close>

definition normalized_abstract :: "string \<Rightarrow> string" where
  "normalized_abstract abstract_text =
     py_lower (py_strip (if prefix ''Abstract:'' abstract_text
                         then drop (length ''Abstract:'') abstract_text else abstract_text))"

subsection \<open>Records up to the order of their categories\<close>

text \<open>
  Two items with the same identifier and the same set of categories; two events that
  are equal but for the order in which the items in them list their categories.
\<close>

definition same_item :: "item \<Rightarrow> item \<Rightarrow> bool" where
  "same_item a b = (item_id a = item_id b \<and> set (item_categories a) = set (item_categories b))"

fun same_event :: "event \<Rightarrow> event \<Rightarrow> bool" where
  "same_event (Log lvl msg) (Log lvl' msg') = (lvl = lvl' \<and> msg = msg')"
| "same_event (Yield_item a) (Yield_item b) = same_item a b"
| "same_event (Yield_request r) (Yield_request r') =
     (url r = url r'
      \<and> title_prefix (request_meta r) = title_prefix (request_meta r')
      \<and> rel_option same_item (item_data (request_meta r)) (item_data (request_meta r')))"
| "same_event ev ev' = False"

subsection \<open>Example pages\<close>

text \<open>
  A listing page with one new entry, in a target category, whose title names an
  interferometer, and the abstract page the transport returns for it.
\<close>

definition interferometer_page :: listing_response where
  "interferometer_page =
     \<lparr>nav_hrefs = [Some ''#item1'', Some ''#item2''],
      dts = [\<lparr>paper_anchor = Some ''item1'',
              abstract_link = Some ''/abs/2401.00001'',
              following_dd =
                Some \<lparr>primary_subject = Some ''Astrophysics of Galaxies (astro-ph.GA)'',
                      list_subjects = None,
                      list_title = Some ''Title: A new interferometer''\<rparr>\<rparr>],
      urljoin = (\<lambda>link. ''https://arxiv.org'' @ link),
      safe_url_string = (\<lambda>u. u)\<rparr>"

definition interferometer_fetch :: "request \<Rightarrow> string option option" where
  "interferometer_fetch req = Some (Some ''Abstract: We build an Interferometer.'')"

text \<open>
  Entries of a listing page whose navigation block ends at index 10: one in a target
  category with a keyword in its title, one in no target category, one without any
  subjects text and without a keyword in its title, and one behind the last marker.
\<close>

definition lensing_entry :: dt where
  "lensing_entry =
     \<lparr>paper_anchor = Some ''item5'',
      abstract_link = Some ''/abs/2401.00005'',
      following_dd =
        Some \<lparr>primary_subject = Some ''Astrophysics of Galaxies (astro-ph.GA)'',
              list_subjects = None,
              list_title = Some ''Title: A Strong Lensing Survey''\<rparr>\<rparr>"

definition learning_entry :: dt where
  "learning_entry =
     \<lparr>paper_anchor = Some ''item6'',
      abstract_link = Some ''/abs/2401.00006'',
      following_dd =
        Some \<lparr>primary_subject = Some ''Machine Learning (cs.LG)'',
              list_subjects = None,
              list_title = Some ''Title: Learning dark matter halos''\<rparr>\<rparr>"

definition plain_entry :: dt where
  "plain_entry =
     \<lparr>paper_anchor = Some ''item7'',
      abstract_link = Some ''/abs/2401.00007'',
      following_dd =
        Some \<lparr>primary_subject = None,
              list_subjects = None,
              list_title = Some ''Title: Counting Galaxies''\<rparr>\<rparr>"

definition late_entry :: dt where
  "late_entry =
     \<lparr>paper_anchor = Some ''item12'',
      abstract_link = Some ''/abs/2401.00012'',
      following_dd =
        Some \<lparr>primary_subject = Some ''Astrophysics of Galaxies (astro-ph.GA)'',
              list_subjects = None,
              list_title = Some ''Title: A JWST survey''\<rparr>\<rparr>"

definition example_page :: listing_response where
  "example_page =
     \<lparr>nav_hrefs = [Some ''#item1'', None, Some ''/help'', Some ''#item10''],
      dts = [lensing_entry, learning_entry, plain_entry, late_entry],
      urljoin = (\<lambda>link. ''https://arxiv.org'' @ link),
      safe_url_string = (\<lambda>u. u)\<rparr>"

text \<open>The item and the request that stage 1 makes for \<open>plain_entry\<close>.\<close>

definition plain_item :: item where
  "plain_item = \<lparr>item_id = ''2401.00007'', item_categories = []\<rparr>"

definition plain_request :: request where
  "plain_request =
     \<lparr>url = ''https://arxiv.org/abs/2401.00007'',
      request_meta = \<lparr>item_data = Some plain_item,
                      title_prefix = Some ''counting galaxies''\<rparr>\<rparr>"

definition gas_fetch :: "request \<Rightarrow> string option option" where
  "gas_fetch req = Some (Some ''Abstract: We study Molecular Gas content.'')"

definition no_block_fetch :: "request \<Rightarrow> string option option" where
  "no_block_fetch req = Some None"

definition gas_twice :: "request \<Rightarrow> string option list" where
  "gas_twice req =
     [Some ''Abstract: We study Molecular Gas content.'',
      Some ''Abstract: We study Molecular Gas content.'']"




definition two_category_entry :: dt where
  "two_category_entry =
     \<lparr>paper_anchor = Some ''item3'',
      abstract_link = Some ''/abs/2401.00003'',
      following_dd =
        Some \<lparr>primary_subject = None,
              list_subjects = Some ''Galaxies (astro-ph.GA); Cosmology (astro-ph.CO)'',
              list_title = Some ''Title: A JWST survey''\<rparr>\<rparr>"

definition two_category_page :: listing_response where
  "two_category_page =
     \<lparr>nav_hrefs = [Some ''#item1'', Some ''#item10''],
      dts = [two_category_entry],
      urljoin = (\<lambda>link. ''https://arxiv.org'' @ link),
      safe_url_string = (\<lambda>u. u)\<rparr>"

definition other_interpreter :: spider where
  "other_interpreter = (init None)\<lparr>set_order := (\<lambda>xs. rev (remdups xs))\<rparr>"

section \<open>Properties\<close>

subsection \<open>Lowercasing and the two loops\<close>

lemma lower_char_idem: "lower_char (lower_char c) = lower_char c"
  by (simp add: lower_char_def Let_def)

lemma py_lower_idem: "py_lower (py_lower s) = py_lower s"
  by (simp add: py_lower_def lower_char_idem)

lemma title_loop_hit:
  "snd (title_loop kws text) = list_ex (\<lambda>kw. sublist (py_lower kw) text) kws"
  by (induction kws) (auto split: prod.splits)

lemma title_loop_tested:
  "fst (title_loop kws text) =
     takeWhile (\<lambda>kw. \<not> sublist (py_lower kw) text) kws
       @ take 1 (dropWhile (\<lambda>kw. \<not> sublist (py_lower kw) text) kws)"
  by (induction kws) (auto split: prod.splits)

lemma abstract_loop_title_loop: "abstract_loop kws text = title_loop kws text"
  by (induction kws) auto

lemma keyword_test_list_ex:
  "keyword_test kws text = list_ex (\<lambda>kw. ci_substring kw text) kws"
  by (induction kws) (auto simp: keyword_test_def first_hit_def)

lemma title_loop_keyword_test:
  "snd (title_loop kws (py_lower text)) = keyword_test kws text"
  by (simp add: title_loop_hit keyword_test_list_ex ci_substring_def py_lower_idem)

lemma clean_title_of_lower: "py_lower (clean_title_of title_text) = clean_title_of title_text"
  by (simp add: clean_title_of_def py_lower_idem) (simp add: py_lower_def)

lemma clean_abstract_of_lower: "py_lower (clean_abstract_of text) = clean_abstract_of text"
  by (simp add: clean_abstract_of_def py_lower_idem)

lemma ci_substring_lowered:
  "ci_substring kw (py_lower text) = sublist (py_lower kw) (py_lower text)"
  by (simp add: ci_substring_def py_lower_idem)

lemma title_loop_lowered:
  "title_loop kws (py_lower text) =
     (takeWhile (\<lambda>kw. \<not> ci_substring kw (py_lower text)) kws
        @ take 1 (dropWhile (\<lambda>kw. \<not> ci_substring kw (py_lower text)) kws),
      keyword_test kws (py_lower text))"
proof -
  have "snd (title_loop kws (py_lower text)) = keyword_test kws (py_lower text)"
    by (simp add: title_loop_hit keyword_test_list_ex ci_substring_lowered)
  moreover have "fst (title_loop kws (py_lower text)) =
     takeWhile (\<lambda>kw. \<not> ci_substring kw (py_lower text)) kws
        @ take 1 (dropWhile (\<lambda>kw. \<not> ci_substring kw (py_lower text)) kws)"
    by (simp add: title_loop_tested ci_substring_lowered)
  ultimately show ?thesis
    by (simp add: prod_eq_iff)
qed

subsection \<open>An entry that reaches the category gate\<close>


lemma categories_of_keywords:
  "categories_of (sp\<lparr>my_keywords := kws\<rparr>) paper_dd = categories_of sp paper_dd"
  by (simp add: categories_of_def)

lemma category_mismatch_keywords:
  "category_mismatch (sp\<lparr>my_keywords := kws\<rparr>) paper_dd = category_mismatch sp paper_dd"
  by (simp add: category_mismatch_def categories_of_keywords)

lemma title_outcome_cases:
  "title_outcome sp response link data title =
     (if is_title_interested sp title then
        Inr [Log Info (''Found INTERESTING paper (by Title) '' @ item_id data @ '': ''
                         @ take 50 title @ ''...''),
             Yield_item data]
      else if missing_scheme (safe_url_string response (urljoin response link)) then
        Inl ValueError
      else
        Inr [Yield_request
               \<lparr>url = safe_url_string response (urljoin response link),
                request_meta = \<lparr>item_data = Some data,
                                title_prefix = Some (take 30 title)\<rparr>\<rparr>])"
  by (simp add: title_outcome_def new_request_def)

subsection \<open>The loops of the listing parser\<close>

lemma collect_anchors_suffixes:
  "collect_anchors hrefs = Inr anchors \<Longrightarrow>
     anchors = map (\<lambda>href. the (py_int (last (py_split ''item'' (the href)))))
                 (filter (\<lambda>href. truthy href \<and> sublist ''item'' (the href)) hrefs)"
  by (induction hrefs arbitrary: anchors) (auto split: if_splits option.splits sum.splits)

lemma title_outcome_dts_update:
  "title_outcome sp (response\<lparr>dts := ds\<rparr>) link data title
     = title_outcome sp response link data title"
  by (simp add: title_outcome_cases)

lemma parse_dt_dts_update:
  "parse_dt sp (response\<lparr>dts := ds\<rparr>) anchors paper_dt = parse_dt sp response anchors paper_dt"
  by (simp add: parse_dt_def title_outcome_dts_update Let_def split: option.splits)

lemma parse_dts_dts_update:
  "parse_dts sp (response\<lparr>dts := ds\<rparr>) anchors entries = parse_dts sp response anchors entries"
  by (induction entries) (simp_all add: parse_dt_dts_update split: sum.splits prod.splits)

lemma parse_dts_without:
  "parse_dt sp response anchors paper_dt = Inr [] \<Longrightarrow>
     parse_dts sp response anchors (before @ paper_dt # behind)
       = parse_dts sp response anchors (before @ behind)"
  by (induction before) (simp_all split: sum.splits prod.splits)

lemma parse_dt_behind_bound:
  assumes "truthy (paper_anchor paper_dt)"
    and "py_int (last (py_split ''item'' (the (paper_anchor paper_dt)))) = Some paper_id"
    and "anchors \<noteq> []" and "last anchors \<le> paper_id"
  shows "parse_dt sp response anchors paper_dt = Inr []"
  using assms by (simp add: parse_dt_def)

lemma parse_dt_no_bound:
  assumes "truthy (paper_anchor paper_dt)"
    and "py_int (last (py_split ''item'' (the (paper_anchor paper_dt)))) = Some paper_id"
  shows "parse_dt sp response [] paper_dt = parse_dt sp response [paper_id + 1] paper_dt"
  using assms by (simp add: parse_dt_def)

subsection \<open>From a request of stage 1 to the callback\<close>

lemma abstract_loop_lowered:
  "abstract_loop kws (py_lower text) =
     (takeWhile (\<lambda>kw. \<not> ci_substring kw (py_lower text)) kws
        @ take 1 (dropWhile (\<lambda>kw. \<not> ci_substring kw (py_lower text)) kws),
      keyword_test kws (py_lower text))"
  by (simp add: abstract_loop_title_loop title_loop_lowered)

lemma is_abstract_interested_clean:
  "is_abstract_interested sp (clean_abstract_of text)
     = keyword_test (my_keywords sp) (clean_abstract_of text)"
  using abstract_loop_lowered [of "my_keywords sp" "py_strip (py_replace ''Abstract:'' [] text)"]
  by (simp add: is_abstract_interested_def clean_abstract_of_def)

lemma is_title_interested_clean:
  "is_title_interested sp (clean_title_of title_text)
     = keyword_test (my_keywords sp) (clean_title_of title_text)"
  using title_loop_keyword_test [of "my_keywords sp" "clean_title_of title_text"]
  by (simp add: is_title_interested_def clean_title_of_lower)

text \<open>What stage 1 puts into a request.\<close>

lemma title_decision_request:
  assumes "Yield_request req \<in> set (title_decision sp response link data title)"
  shows "\<not> is_title_interested sp title"
    and "title_decision sp response link data title = [Yield_request req]"
    and "request_meta req = \<lparr>item_data = Some data, title_prefix = Some (take 30 title)\<rparr>"
  using assms by (auto simp: title_decision_def title_outcome_cases split: if_splits)

lemma parse_abstract_page_delivered:
  assumes "request_meta req = \<lparr>item_data = Some data, title_prefix = Some short\<rparr>"
  shows "parse_abstract_page sp (deliver req block) =
     (if truthy block then
        (if keyword_test (my_keywords sp) (clean_abstract_of (the block)) then
           Inr [Log Info (''Found INTERESTING paper (by Abstract) '' @ item_id data
                            @ '': '' @ short @ ''...''),
                Yield_item data]
         else
           Inr [Log Info (''Skipped paper '' @ item_id data
                            @ '': Keywords not found in Title or Abstract'')])
      else Inr [Log Warning (''Could not extract abstract for '' @ item_id data)])"
  using assms by (simp add: parse_abstract_page_def deliver_def is_abstract_interested_clean)

subsection \<open>The shapes of the event lists\<close>

lemma emitted_append: "emitted (xs @ ys) = emitted xs @ emitted ys"
  by (induction xs rule: emitted.induct) simp_all

lemma requested_append: "requested (xs @ ys) = requested xs @ requested ys"
  by (induction xs rule: requested.induct) simp_all

lemma parse_dt_shapes:
  assumes "parse_dt sp response anchors paper_dt = Inr evs"
  shows "evs = []
       \<or> (\<exists>msg. evs = [Log Debug msg])
       \<or> (\<exists>msg data. evs = [Log Info msg, Yield_item data])
       \<or> (\<exists>req. evs = [Yield_request req])"
  using assms
  by (auto simp: parse_dt_def title_outcome_cases Let_def split: if_splits option.splits)

lemma parse_abstract_page_shapes:
  assumes "parse_abstract_page sp response = Inr evs"
  shows "(\<exists>lvl msg. evs = [Log lvl msg]) \<or> (\<exists>msg data. evs = [Log Info msg, Yield_item data])"
  using assms
  by (auto simp: parse_abstract_page_def split: if_splits option.splits)

lemma callback_run_once:
  "length (emitted (callback_run sp req block)) \<le> 1 \<and> requested (callback_run sp req block) = []"
proof (cases "parse_abstract_page sp (deliver req block)")
  case (Inl e)
  then show ?thesis by (simp add: callback_run_def)
next
  case (Inr evs)
  from parse_abstract_page_shapes [OF Inr] Inr show ?thesis
    by (auto simp: callback_run_def)
qed

lemma callback_events_once:
  "length (emitted (callback_events sp fetch ev)) \<le> 1
   \<and> requested (callback_events sp fetch ev) = []"
proof (cases ev)
  case (Yield_request req)
  then show ?thesis
    using callback_run_once [of sp req] by (cases "fetch req") simp_all
qed simp_all

lemma deliveries_bound:
  "length (emitted (concat (map (callback_run sp req) blocks))) \<le> length blocks
   \<and> requested (concat (map (callback_run sp req) blocks)) = []"
proof (induction blocks)
  case Nil
  show ?case by simp
next
  case (Cons block blocks)
  then show ?case
    using callback_run_once [of sp req block] by (simp add: emitted_append requested_append)
qed

lemma chain_once:
  assumes "parse_dt sp response anchors paper_dt = Inr evs"
  shows "length (emitted evs) + length (requested evs) \<le> 1
       \<and> length (emitted (chain sp fetch evs)) \<le> 1
       \<and> (emitted evs = [] \<or> emitted (concat (map (callback_events sp fetch) evs)) = [])"
proof -
  from parse_dt_shapes [OF assms]
  consider "evs = []" | msg where "evs = [Log Debug msg]"
    | msg data where "evs = [Log Info msg, Yield_item data]"
    | req where "evs = [Yield_request req]"
    by blast
  then show ?thesis
  proof cases
    case 4
    then show ?thesis
      using callback_events_once [of sp fetch "Yield_request req"]
      by (simp add: chain_def)
  qed (simp_all add: chain_def)
qed

lemma chain_all_bound:
  assumes "parse_dt sp response anchors paper_dt = Inr evs"
  shows "(emitted evs = [] \<or> emitted (concat (map (deliveries sp pages) evs)) = [])
       \<and> length (emitted (chain_all sp pages evs))
           \<le> length (emitted evs) + sum_list (map (\<lambda>req. length (pages req)) (requested evs))"
proof -
  from parse_dt_shapes [OF assms]
  consider "evs = []" | msg where "evs = [Log Debug msg]"
    | msg data where "evs = [Log Info msg, Yield_item data]"
    | req where "evs = [Yield_request req]"
    by blast
  then show ?thesis
  proof cases
    case 4
    then show ?thesis
      using deliveries_bound [of sp req "pages req"]
      by (simp add: chain_all_def)
  qed (simp_all add: chain_all_def)
qed

lemma crawl_dts_bound:
  "length (emitted (chain sp fetch (fst (parse_dts sp response anchors entries))))
     \<le> length entries"
proof (induction entries)
  case Nil
  show ?case by (simp add: chain_def)
next
  case (Cons paper_dt entries)
  show ?case
  proof (cases "parse_dt sp response anchors paper_dt")
    case (Inl e)
    then show ?thesis by (simp add: chain_def)
  next
    case (Inr evs)
    obtain evs' err where rest: "parse_dts sp response anchors entries = (evs', err)"
      by (cases "parse_dts sp response anchors entries")
    have "emitted (chain sp fetch (evs @ evs'))
            = emitted evs @ emitted evs'
              @ emitted (concat (map (callback_events sp fetch) evs))
              @ emitted (concat (map (callback_events sp fetch) evs'))"
      by (simp add: chain_def emitted_append)
    then have "length (emitted (chain sp fetch (evs @ evs')))
            = length (emitted (chain sp fetch evs)) + length (emitted (chain sp fetch evs'))"
      by (simp add: chain_def emitted_append)
    moreover have "length (emitted (chain sp fetch evs)) \<le> 1"
      using chain_once [OF Inr] by simp
    moreover have "length (emitted (chain sp fetch evs')) \<le> length entries"
      using Cons.IH rest by simp
    ultimately show ?thesis
      using Inr rest by simp
  qed
qed

lemma crawl_page_bound:
  "length (emitted (crawl_page sp fetch response)) \<le> length (dts response)"
proof (cases "collect_anchors (nav_hrefs response)")
  case (Inl e)
  then show ?thesis by (simp add: crawl_page_def parse_def chain_def)
next
  case (Inr anchors)
  then show ?thesis by (simp add: crawl_page_def parse_def crawl_dts_bound)
qed

subsection \<open>What a parse depends on\<close>

lemma categories_of_cong:
  "set_order sp' = set_order sp \<Longrightarrow> categories_of sp' paper_dd = categories_of sp paper_dd"
  by (simp add: categories_of_def)

lemma title_outcome_cong:
  "my_keywords sp' = my_keywords sp \<Longrightarrow>
     title_outcome sp' response link data title = title_outcome sp response link data title"
  by (simp add: title_outcome_def is_title_interested_def)

lemma parse_dt_cong:
  assumes "target_categories sp' = target_categories sp"
    and "my_keywords sp' = my_keywords sp"
    and "set_order sp' = set_order sp"
  shows "parse_dt sp' response anchors paper_dt = parse_dt sp response anchors paper_dt"
  using assms
  by (simp add: parse_dt_def title_outcome_cong [OF assms(2)] categories_of_cong [OF assms(3)]
      category_mismatch_def Let_def split: option.splits)

lemma parse_dts_cong:
  assumes "target_categories sp' = target_categories sp"
    and "my_keywords sp' = my_keywords sp"
    and "set_order sp' = set_order sp"
  shows "parse_dts sp' response anchors entries = parse_dts sp response anchors entries"
  by (induction entries) (simp_all add: parse_dt_cong [OF assms] split: sum.splits prod.splits)

lemma parse_cong:
  assumes "target_categories sp' = target_categories sp"
    and "my_keywords sp' = my_keywords sp"
    and "set_order sp' = set_order sp"
  shows "parse sp' response = parse sp response"
  by (simp add: parse_def parse_dts_cong [OF assms] split: sum.splits)

lemma run_parse_snd: "\<exists>ls. snd (run_parse sp response) = sp\<lparr>logged := ls\<rparr>"
  by (auto simp: run_parse_def)

lemma run_parses_logged: "\<exists>ls. run_parses sp responses = sp\<lparr>logged := ls\<rparr>"
proof (induction responses arbitrary: sp)
  case Nil
  have "sp = sp\<lparr>logged := logged sp\<rparr>" by simp
  then show ?case by (metis run_parses.simps(1))
next
  case (Cons response responses)
  obtain ls where step: "snd (run_parse sp response) = sp\<lparr>logged := ls\<rparr>"
    using run_parse_snd by blast
  obtain ls' where "run_parses (sp\<lparr>logged := ls\<rparr>) responses = sp\<lparr>logged := ls\<rparr>\<lparr>logged := ls'\<rparr>"
    using Cons.IH by blast
  then have "run_parses sp (response # responses) = sp\<lparr>logged := ls'\<rparr>"
    by (simp add: step)
  then show ?case ..
qed

subsection \<open>Two interpreters\<close>

lemma same_event_refl: "same_event ev ev"
  by (cases ev) (simp_all add: same_item_def option.rel_refl)

lemma same_events_refl: "list_all2 same_event evs evs"
  by (simp add: list_all2_refl same_event_refl)

lemma parse_dt_same:
  assumes "target_categories sp' = target_categories sp"
    and "my_keywords sp' = my_keywords sp"
    and "\<And>xs. set (set_order sp xs) = set xs"
    and "\<And>xs. set (set_order sp' xs) = set xs"
  shows "rel_sum (=) (list_all2 same_event)
           (parse_dt sp response anchors paper_dt) (parse_dt sp' response anchors paper_dt)"
proof -
  have cats: "set (categories_of sp' d) = set (categories_of sp d)" for d
    by (simp add: categories_of_def assms(3,4))
  have gate: "category_mismatch sp' d = category_mismatch sp d" for d
    by (simp add: category_mismatch_def cats assms(1))
  have flag: "is_title_interested sp' title = is_title_interested sp title" for title
    by (simp add: is_title_interested_def assms(2))
  have outcome: "rel_sum (=) (list_all2 same_event)
      (title_outcome sp response link \<lparr>item_id = i, item_categories = categories_of sp d\<rparr> title)
      (title_outcome sp' response link \<lparr>item_id = i, item_categories = categories_of sp' d\<rparr> title)"
    for link i d title
    by (simp add: title_outcome_cases flag same_item_def cats)
  show ?thesis
    by (simp add: parse_dt_def Let_def gate outcome split: option.splits)
qed

lemma parse_dts_same:
  assumes "target_categories sp' = target_categories sp"
    and "my_keywords sp' = my_keywords sp"
    and "\<And>xs. set (set_order sp xs) = set xs"
    and "\<And>xs. set (set_order sp' xs) = set xs"
  shows "list_all2 same_event (fst (parse_dts sp response anchors entries))
                              (fst (parse_dts sp' response anchors entries))
       \<and> snd (parse_dts sp response anchors entries) = snd (parse_dts sp' response anchors entries)"
proof (induction entries)
  case Nil
  show ?case by simp
next
  case (Cons paper_dt entries)
  note one = parse_dt_same [OF assms, of response anchors paper_dt]
  show ?case
  proof (cases "parse_dt sp response anchors paper_dt")
    case (Inl e)
    with one show ?thesis
      by (cases "parse_dt sp' response anchors paper_dt") simp_all
  next
    case (Inr evs)
    with one obtain evs' where other: "parse_dt sp' response anchors paper_dt = Inr evs'"
      and rel: "list_all2 same_event evs evs'"
      by (cases "parse_dt sp' response anchors paper_dt") simp_all
    from Cons.IH rel show ?thesis
      by (simp add: Inr other split: prod.splits) (auto intro: list_all2_appendI)
  qed
qed

subsection \<open>Where the two title normalisations agree\<close>

lemma replace_scan_absent:
  "\<not> sublist old s \<Longrightarrow> replace_scan old new s = s"
proof (induction s)
  case Nil
  show ?case by simp
next
  case (Cons c cs)
  from Cons.prems have "\<not> prefix old (c # cs)" and "\<not> sublist old cs"
    by (auto simp: sublist_Cons_right)
  with Cons.IH show ?case by simp
qed

lemma clean_title_of_leading_label:
  assumes "\<not> sublist ''Title:'' rest"
  shows "clean_title_of (Some (''Title:'' @ rest)) = normalized_title (''Title:'' @ rest)"
    and "rest \<noteq> [] \<Longrightarrow> clean_title_of (Some rest) = normalized_title rest"
proof -
  have "replace_scan ''Title:'' [] rest = rest"
    using assms by (rule replace_scan_absent)
  then show "clean_title_of (Some (''Title:'' @ rest)) = normalized_title (''Title:'' @ rest)"
    by (simp add: clean_title_of_def normalized_title_def py_replace_def)
  have "\<not> prefix ''Title:'' rest"
    using assms by auto
  then show "rest \<noteq> [] \<Longrightarrow> clean_title_of (Some rest) = normalized_title rest"
    using \<open>replace_scan ''Title:'' [] rest = rest\<close>
    by (simp add: clean_title_of_def normalized_title_def py_replace_def)
qed


lemma callback_on_clean_abstract:
  assumes "Yield_request req \<in> set (title_decision sp response link data title)"
    and "abstract_text \<noteq> []"
  shows "parse_abstract_page sp (deliver req (Some abstract_text)) =
           Inr (if keyword_test (my_keywords sp) (clean_abstract_of abstract_text) then
                  [Log Info (''Found INTERESTING paper (by Abstract) '' @ item_id data
                               @ '': '' @ take 30 title @ ''...''),
                   Yield_item data]
                else
                  [Log Info (''Skipped paper '' @ item_id data
                               @ '': Keywords not found in Title or Abstract'')])"
  using assms(2)
  by (simp add: parse_abstract_page_delivered [OF title_decision_request(3) [OF assms(1)]])

subsection \<open>The keyword test is the same in both stages\<close>

text \<open>
  Claim C5. The loop of stage 1 and the loop of stage 2 are the same computation on
  every text: with the spider's keyword list they evaluate the same patterns in the same
  order, stop at the same first hit and return the same flag. On a lowercased text, as
  both stages pass it, the flag is the case-insensitive keyword test of the
  specification.
\<close>

theorem shared_keyword_predicate:
  "title_loop (my_keywords sp) text = abstract_loop (my_keywords sp) text
   \<and> is_title_interested sp text = is_abstract_interested sp text
   \<and> is_title_interested sp (py_lower text) = keyword_test (my_keywords sp) text
   \<and> is_abstract_interested sp (py_lower text) = keyword_test (my_keywords sp) text"
  by (simp add: is_title_interested_def is_abstract_interested_def
      abstract_loop_title_loop title_loop_keyword_test)

subsection \<open>The keyword list as Python reads it\<close>

text \<open>
  Claim C7. In the keyword list of the spider, the literals that no comma separates are
  one pattern each: \<open>strong lensinglens model\<close> and \<open>interferometerDust\<close> are
  elements, while \<open>strong lensing\<close>, \<open>lens model\<close>, \<open>interferometer\<close> and
  \<open>Dust\<close> are not. The example entry has \<open>interferometer\<close> in its normalised title
  and in its normalised abstract; the spider with the default configuration asks for its
  abstract page, logs the keyword mismatch and emits nothing.
\<close>

theorem keyword_concatenation_artifact:
  "my_keywords (init env) = keyword_literal
   \<and> ''strong lensinglens model'' \<in> set keyword_literal
   \<and> ''interferometerDust'' \<in> set keyword_literal
   \<and> ''strong lensing'' \<notin> set keyword_literal
   \<and> ''lens model'' \<notin> set keyword_literal
   \<and> ''interferometer'' \<notin> set keyword_literal
   \<and> ''Dust'' \<notin> set keyword_literal
   \<and> sublist ''interferometer'' (clean_title_of (Some ''Title: A new interferometer''))
   \<and> sublist ''interferometer'' (clean_abstract_of ''Abstract: We build an Interferometer.'')
   \<and> crawl_page (init None) interferometer_fetch interferometer_page
       = [Yield_request
            \<lparr>url = ''https://arxiv.org/abs/2401.00001'',
             request_meta =
               \<lparr>item_data = Some \<lparr>item_id = ''2401.00001'',
                                  item_categories = [''astro-ph.GA'']\<rparr>,
                title_prefix = Some ''a new interferometer''\<rparr>\<rparr>,
          Log Info ''Skipped paper 2401.00001: Keywords not found in Title or Abstract'']
   \<and> emitted (crawl_page (init None) interferometer_fetch interferometer_page) = []"
proof -
  have from_init: "my_keywords (init env) = keyword_literal"
    by (simp add: init_def)
  have elements:
    "''strong lensinglens model'' \<in> set keyword_literal
     \<and> ''interferometerDust'' \<in> set keyword_literal
     \<and> ''strong lensing'' \<notin> set keyword_literal
     \<and> ''lens model'' \<notin> set keyword_literal
     \<and> ''interferometer'' \<notin> set keyword_literal
     \<and> ''Dust'' \<notin> set keyword_literal"
    by (simp add: keyword_literal_def)
  have in_title:
    "sublist ''interferometer'' (clean_title_of (Some ''Title: A new interferometer''))"
    by code_simp
  have in_abstract:
    "sublist ''interferometer'' (clean_abstract_of ''Abstract: We build an Interferometer.'')"
    by code_simp
  have events:
    "crawl_page (init None) interferometer_fetch interferometer_page
       = [Yield_request
            \<lparr>url = ''https://arxiv.org/abs/2401.00001'',
             request_meta =
               \<lparr>item_data = Some \<lparr>item_id = ''2401.00001'',
                                  item_categories = [''astro-ph.GA'']\<rparr>,
                title_prefix = Some ''a new interferometer''\<rparr>\<rparr>,
          Log Info ''Skipped paper 2401.00001: Keywords not found in Title or Abstract'']"
    by code_simp
  have no_item: "emitted (crawl_page (init None) interferometer_fetch interferometer_page) = []"
    by (simp add: events)
  show ?thesis
    using from_init elements in_title in_abstract events no_item
    by - (elim conjE, intro conjI, assumption+)
qed

subsection \<open>Stage 1: the title decides between emitting and asking for the abstract\<close>




subsection \<open>The category gate\<close>




subsection \<open>The last navigation marker bounds the entries\<close>

text \<open>
  Claim C4. When the first loop ends normally, \<open>anchors\<close> are the integers behind the
  last \<^verbatim>\<open>item\<close> of the navigation links that contain \<^verbatim>\<open>item\<close>, in document
  order, and the bound is their last element. An entry of the page whose own index is
  the bound or above yields nothing, neither item nor request nor log line: the page
  parses as the page without that entry does. Without anchors an entry is treated as
  an entry below a bound is: its index excludes nothing.
\<close>

theorem boundary_exclusivity:
  assumes "collect_anchors (nav_hrefs response) = Inr anchors"
    and "truthy (paper_anchor paper_dt)"
    and "py_int (last (py_split ''item'' (the (paper_anchor paper_dt)))) = Some paper_id"
    and "dts response = before @ paper_dt # behind"
  shows "anchors = map (\<lambda>href. the (py_int (last (py_split ''item'' (the href)))))
                     (filter (\<lambda>href. truthy href \<and> sublist ''item'' (the href))
                        (nav_hrefs response))
       \<and> (anchors \<noteq> [] \<and> last anchors \<le> paper_id \<longrightarrow>
            parse_dt sp response anchors paper_dt = Inr []
            \<and> parse sp response = parse sp (response\<lparr>dts := before @ behind\<rparr>))
       \<and> (anchors = [] \<longrightarrow>
            parse_dt sp response anchors paper_dt = parse_dt sp response [paper_id + 1] paper_dt)"
proof (intro conjI impI)
  show "anchors = map (\<lambda>href. the (py_int (last (py_split ''item'' (the href)))))
                     (filter (\<lambda>href. truthy href \<and> sublist ''item'' (the href))
                        (nav_hrefs response))"
    using assms(1) by (rule collect_anchors_suffixes)
next
  assume bound: "anchors \<noteq> [] \<and> last anchors \<le> paper_id"
  then show nothing_here: "parse_dt sp response anchors paper_dt = Inr []"
    using assms(2,3) by (simp add: parse_dt_behind_bound)
  have "parse sp response = parse_dts sp response anchors (before @ paper_dt # behind)"
    using assms(1,4) by (simp add: parse_def)
  also have "\<dots> = parse_dts sp response anchors (before @ behind)"
    using nothing_here by (rule parse_dts_without)
  also have "\<dots> = parse sp (response\<lparr>dts := before @ behind\<rparr>)"
    using assms(1) by (simp add: parse_def parse_dts_dts_update)
  finally show "parse sp response = parse sp (response\<lparr>dts := before @ behind\<rparr>)" .
next
  assume "anchors = []"
  then show "parse_dt sp response anchors paper_dt = parse_dt sp response [paper_id + 1] paper_dt"
    using assms(2,3) by (simp add: parse_dt_no_bound)
qed

theorem boundary_exclusivity_witness:
  "collect_anchors (nav_hrefs example_page) = Inr [1, 10]
   \<and> py_int (last (py_split ''item'' (the (paper_anchor late_entry)))) = Some 12
   \<and> parse_dt (init None) example_page [1, 10] late_entry = Inr []
   \<and> parse (init None) example_page
       = parse (init None) (example_page\<lparr>dts := [lensing_entry, learning_entry, plain_entry]\<rparr>)
   \<and> collect_anchors (nav_hrefs (example_page\<lparr>nav_hrefs := [None, Some ''/help'']\<rparr>)) = Inr []
   \<and> parse_dt (init None) (example_page\<lparr>nav_hrefs := [None, Some ''/help'']\<rparr>) [] late_entry
       = parse_dt (init None) (example_page\<lparr>nav_hrefs := [None, Some ''/help'']\<rparr>) [13] late_entry
   \<and> parse_dt (init None) (example_page\<lparr>nav_hrefs := [None, Some ''/help'']\<rparr>) [] late_entry
       = Inr [Log Info ''Found INTERESTING paper (by Title) 2401.00012: a jwst survey...'',
              Yield_item \<lparr>item_id = ''2401.00012'', item_categories = [''astro-ph.GA'']\<rparr>]"
proof -
  have a1: "collect_anchors (nav_hrefs example_page) = Inr [1, 10]" by code_simp
  have a2: "truthy (paper_anchor late_entry)" by code_simp
  have a3: "py_int (last (py_split ''item'' (the (paper_anchor late_entry)))) = Some 12"
    by code_simp
  have a4: "dts example_page = [lensing_entry, learning_entry, plain_entry] @ late_entry # []"
    by (simp add: example_page_def)
  note bound = boundary_exclusivity [OF a1 a2 a3 a4, of "init None"]
  note behind_bound = bound [THEN conjunct2, THEN conjunct1]
  have r1: "parse_dt (init None) example_page [1, 10] late_entry = Inr []"
    using behind_bound by simp
  have r2: "parse (init None) example_page
       = parse (init None) (example_page\<lparr>dts := [lensing_entry, learning_entry, plain_entry]\<rparr>)"
    using behind_bound by simp
  have b1: "collect_anchors (nav_hrefs (example_page\<lparr>nav_hrefs := [None, Some ''/help'']\<rparr>)) = Inr []"
    by code_simp
  have b4: "dts (example_page\<lparr>nav_hrefs := [None, Some ''/help'']\<rparr>)
              = [lensing_entry, learning_entry, plain_entry] @ late_entry # []"
    by (simp add: example_page_def)
  have r3: "parse_dt (init None) (example_page\<lparr>nav_hrefs := [None, Some ''/help'']\<rparr>) [] late_entry
       = parse_dt (init None) (example_page\<lparr>nav_hrefs := [None, Some ''/help'']\<rparr>) [13] late_entry"
    using boundary_exclusivity [OF b1 a2 a3 b4, of "init None", THEN conjunct2, THEN conjunct2]
    by simp
  have r4: "parse_dt (init None) (example_page\<lparr>nav_hrefs := [None, Some ''/help'']\<rparr>) [] late_entry
       = Inr [Log Info ''Found INTERESTING paper (by Title) 2401.00012: a jwst survey...'',
              Yield_item \<lparr>item_id = ''2401.00012'', item_categories = [''astro-ph.GA'']\<rparr>]"
    by code_simp
  show ?thesis
    using a1 a3 r1 r2 b1 r3 r4 by - (intro conjI, assumption+)
qed

subsection \<open>Stage 2: the abstract decides\<close>

text \<open>
  Claim C2. The specification tests the keywords on the normalised abstract, the
  abstract text with a leading label \<^verbatim>\<open>Abstract:\<close> stripped, trimmed and lowercased.
  The spider calls \<^verbatim>\<open>replace("Abstract:", "")\<close>, which removes every occurrence. For
  the request that stage 1 makes for an entry whose title matches no keyword, and an
  abstract text with a second \<^verbatim>\<open>Abstract:\<close> inside a word, no keyword occurs in the
  normalised abstract of the specification, and yet the callback finds one in what the
  spider has made of the text and emits the item.
\<close>

theorem abstract_label_removed_everywhere:
  "title_decision (init None) example_page ''/abs/2401.00007'' plain_item ''counting galaxies''
     = [Yield_request plain_request]
   \<and> normalized_abstract ''Abstract: The ALAbstract:MA array'' = ''the alabstract:ma array''
   \<and> \<not> keyword_test (my_keywords (init None))
         (normalized_abstract ''Abstract: The ALAbstract:MA array'')
   \<and> clean_abstract_of ''Abstract: The ALAbstract:MA array'' = ''the alma array''
   \<and> parse_abstract_page (init None)
        (deliver plain_request (Some ''Abstract: The ALAbstract:MA array'')) =
       Inr [Log Info ''Found INTERESTING paper (by Abstract) 2401.00007: counting galaxies...'',
            Yield_item plain_item]"
proof -
  have stage1: "title_decision (init None) example_page ''/abs/2401.00007'' plain_item
      ''counting galaxies'' = [Yield_request plain_request]"
    by code_simp
  have spec: "normalized_abstract ''Abstract: The ALAbstract:MA array''
      = ''the alabstract:ma array''"
    by code_simp
  have miss: "\<not> keyword_test (my_keywords (init None))
         (normalized_abstract ''Abstract: The ALAbstract:MA array'')"
    by code_simp
  have code: "clean_abstract_of ''Abstract: The ALAbstract:MA array'' = ''the alma array''"
    by code_simp
  have page: "parse_abstract_page (init None)
        (deliver plain_request (Some ''Abstract: The ALAbstract:MA array'')) =
       Inr [Log Info ''Found INTERESTING paper (by Abstract) 2401.00007: counting galaxies...'',
            Yield_item plain_item]"
    by code_simp
  show ?thesis
    using stage1 spec miss code page by - (intro conjI, assumption+)
qed

subsection \<open>An abstract page without abstract text\<close>

text \<open>
  Claim C9. Take a request that stage 1 yields for an entry, and an abstract page for it
  on which the abstract block is missing or has no text. The callback ends normally, with
  no exception; it yields neither an item nor a request, so there is no retry; and it
  logs one line, at warning level. On every page with a non-empty abstract text the
  callback logs at info level only, and the line of a keyword mismatch is such a line:
  the level tells the two skips apart.
\<close>

theorem missing_abstract_skip:
  assumes "Yield_request req \<in> set (title_decision sp response link data title)"
    and "\<not> truthy block"
  shows "parse_abstract_page sp (deliver req block) =
           Inr [Log Warning (''Could not extract abstract for '' @ item_id data)]
       \<and> emitted (callback_events sp (\<lambda>r. Some block) (Yield_request req)) = []
       \<and> requested (callback_events sp (\<lambda>r. Some block) (Yield_request req)) = []
       \<and> map fst (logs_of (callback_events sp (\<lambda>r. Some block) (Yield_request req))) = [Warning]
       \<and> (\<forall>text. text \<noteq> [] \<longrightarrow>
            map fst (logs_of (callback_events sp (\<lambda>r. Some (Some text)) (Yield_request req)))
              = [Info])
       \<and> (\<forall>text. text \<noteq> [] \<longrightarrow> \<not> keyword_test (my_keywords sp) (clean_abstract_of text) \<longrightarrow>
            parse_abstract_page sp (deliver req (Some text)) =
              Inr [Log Info (''Skipped paper '' @ item_id data
                               @ '': Keywords not found in Title or Abstract'')])"
proof -
  note stage1 = title_decision_request [OF assms(1)]
  note page = parse_abstract_page_delivered [OF stage1(3)]
  have warn: "parse_abstract_page sp (deliver req block) =
           Inr [Log Warning (''Could not extract abstract for '' @ item_id data)]"
    using assms(2) by (simp add: callback_run_def page)
  have no_item: "emitted (callback_events sp (\<lambda>r. Some block) (Yield_request req)) = []"
    by (simp add: callback_run_def warn)
  have no_request: "requested (callback_events sp (\<lambda>r. Some block) (Yield_request req)) = []"
    by (simp add: callback_run_def warn)
  have levels: "map fst (logs_of (callback_events sp (\<lambda>r. Some block) (Yield_request req)))
      = [Warning]"
    by (simp add: callback_run_def warn)
  have others: "\<forall>text. text \<noteq> [] \<longrightarrow>
            map fst (logs_of (callback_events sp (\<lambda>r. Some (Some text)) (Yield_request req)))
              = [Info]"
    by (simp add: callback_run_def page)
  have mismatch: "\<forall>text. text \<noteq> [] \<longrightarrow>
          \<not> keyword_test (my_keywords sp) (clean_abstract_of text) \<longrightarrow>
            parse_abstract_page sp (deliver req (Some text)) =
              Inr [Log Info (''Skipped paper '' @ item_id data
                               @ '': Keywords not found in Title or Abstract'')]"
    by (simp add: callback_run_def page)
  show ?thesis
    using warn no_item no_request levels others mismatch by - (intro conjI, assumption+)
qed

theorem missing_abstract_skip_witness:
  "parse_abstract_page (init None) (deliver plain_request None) =
      Inr [Log Warning ''Could not extract abstract for 2401.00007'']
   \<and> parse_abstract_page (init None) (deliver plain_request (Some '''')) =
      Inr [Log Warning ''Could not extract abstract for 2401.00007'']
   \<and> emitted (callback_events (init None) no_block_fetch (Yield_request plain_request)) = []
   \<and> parse_abstract_page (init None)
        (deliver plain_request (Some ''Abstract: We build an Interferometer.'')) =
       Inr [Log Info ''Skipped paper 2401.00007: Keywords not found in Title or Abstract'']"
proof -
  have stage1: "title_decision (init None) example_page ''/abs/2401.00007'' plain_item
      ''counting galaxies'' = [Yield_request plain_request]"
    by code_simp
  have a1: "Yield_request plain_request
     \<in> set (title_decision (init None) example_page ''/abs/2401.00007'' plain_item
              ''counting galaxies'')"
    by (simp add: stage1)
  have a2: "\<not> truthy None" by simp
  have b2: "\<not> truthy (Some '''')" by simp
  have name: "item_id plain_item = ''2401.00007''"
    by (simp add: plain_item_def)
  have miss: "\<not> keyword_test (my_keywords (init None))
      (clean_abstract_of ''Abstract: We build an Interferometer.'')"
    by code_simp
  have fetch: "no_block_fetch = (\<lambda>r. Some None)"
    by (simp add: no_block_fetch_def fun_eq_iff)
  note absent = missing_abstract_skip [OF a1 a2]
  note empty = missing_abstract_skip [OF a1 b2]
  have r1: "parse_abstract_page (init None) (deliver plain_request None) =
      Inr [Log Warning ''Could not extract abstract for 2401.00007'']"
    using absent by (simp add: name)
  have r2: "parse_abstract_page (init None) (deliver plain_request (Some '''')) =
      Inr [Log Warning ''Could not extract abstract for 2401.00007'']"
    using empty by (simp add: name)
  have r3: "emitted (callback_events (init None) no_block_fetch (Yield_request plain_request)) = []"
    using absent by (simp add: fetch)
  have "parse_abstract_page (init None)
        (deliver plain_request (Some ''Abstract: We build an Interferometer.'')) =
       Inr [Log Info (''Skipped paper '' @ item_id plain_item
                        @ '': Keywords not found in Title or Abstract'')]"
    using absent miss by simp
  then have r4: "parse_abstract_page (init None)
        (deliver plain_request (Some ''Abstract: We build an Interferometer.'')) =
       Inr [Log Info ''Skipped paper 2401.00007: Keywords not found in Title or Abstract'']"
    by (simp add: name)
  show ?thesis
    using r1 r2 r3 r4 by - (intro conjI, assumption+)
qed

subsection \<open>An entry is emitted at most once for each delivery\<close>

text \<open>
  Claim C10, as amended. An entry of a listing page yields at most one object, an item
  or a request, never both. A call of the callback emits at most one item and asks for
  no further page. Along the chain of an entry, an item emitted by stage 1 excludes any
  emitted by stage 2, and the chain emits at most one item for stage 1 and one for each
  delivery of the abstract page; with an engine that delivers every requested page at
  most once, the chain emits at most one item.
\<close>

theorem emission_per_delivery:
  assumes "parse_dt sp response anchors paper_dt = Inr evs"
  shows "length (emitted evs) + length (requested evs) \<le> 1
       \<and> length (emitted (callback_run sp req block)) \<le> 1
       \<and> requested (callback_run sp req block) = []
       \<and> (emitted evs = [] \<or> emitted (concat (map (deliveries sp pages) evs)) = [])
       \<and> length (emitted (chain_all sp pages evs))
           \<le> length (emitted evs) + sum_list (map (\<lambda>r. length (pages r)) (requested evs))
       \<and> length (emitted (chain sp fetch evs)) \<le> 1"
  using chain_once [OF assms, of fetch] chain_all_bound [OF assms, of pages]
    callback_run_once [of sp req block]
  by simp

theorem emission_per_delivery_witness:
  "parse_dt (init None) example_page [1, 10] plain_entry = Inr [Yield_request plain_request]
   \<and> length (emitted (callback_run (init None) plain_request
        (Some ''Abstract: We study Molecular Gas content.''))) \<le> 1
   \<and> length (emitted (chain_all (init None) gas_twice [Yield_request plain_request]))
        \<le> length (emitted [Yield_request plain_request])
           + sum_list (map (\<lambda>r. length (gas_twice r)) (requested [Yield_request plain_request]))
   \<and> sum_list (map (\<lambda>r. length (gas_twice r)) (requested [Yield_request plain_request])) = 2
   \<and> length (emitted (chain (init None) gas_fetch [Yield_request plain_request])) \<le> 1
   \<and> emitted (chain (init None) gas_fetch [Yield_request plain_request]) = [plain_item]"
proof -
  have b: "parse_dt (init None) example_page [1, 10] plain_entry = Inr [Yield_request plain_request]"
    by code_simp
  note once = emission_per_delivery [OF b, of plain_request
      "Some ''Abstract: We study Molecular Gas content.''" gas_twice gas_fetch]
  have r1: "length (emitted (callback_run (init None) plain_request
        (Some ''Abstract: We study Molecular Gas content.''))) \<le> 1"
    using once by simp
  have r2: "length (emitted (chain_all (init None) gas_twice [Yield_request plain_request]))
        \<le> length (emitted [Yield_request plain_request])
           + sum_list (map (\<lambda>r. length (gas_twice r)) (requested [Yield_request plain_request]))"
    using once by simp
  have r3: "sum_list (map (\<lambda>r. length (gas_twice r)) (requested [Yield_request plain_request])) = 2"
    by (simp add: gas_twice_def)
  have r4: "length (emitted (chain (init None) gas_fetch [Yield_request plain_request])) \<le> 1"
    using once by simp
  have r5: "emitted (chain (init None) gas_fetch [Yield_request plain_request]) = [plain_item]"
    by code_simp
  show ?thesis
    using b r1 r2 r3 r4 r5 by - (intro conjI, assumption+)
qed

text \<open>
  The claim as it stands fails when the engine delivers the abstract page of an
  escalated entry twice, which delivery at least once allows: the callback runs for
  each delivery and keeps no record of what it has emitted, so stage 2 emits the
  entry twice.
\<close>

theorem at_most_once_counterexample:
  "parse_dt (init None) example_page [1, 10] plain_entry = Inr [Yield_request plain_request]
   \<and> gas_twice plain_request =
       [Some ''Abstract: We study Molecular Gas content.'',
        Some ''Abstract: We study Molecular Gas content.'']
   \<and> emitted (chain_all (init None) gas_twice [Yield_request plain_request])
       = [plain_item, plain_item]"
proof -
  have a: "parse_dt (init None) example_page [1, 10] plain_entry = Inr [Yield_request plain_request]"
    by code_simp
  have b: "gas_twice plain_request =
       [Some ''Abstract: We study Molecular Gas content.'',
        Some ''Abstract: We study Molecular Gas content.'']"
    by (simp add: gas_twice_def)
  have c: "emitted (chain_all (init None) gas_twice [Yield_request plain_request])
       = [plain_item, plain_item]"
    by code_simp
  show ?thesis
    using a b c by - (intro conjI, assumption+)
qed

subsection \<open>Parsing a page twice\<close>

text \<open>
  Claim C8, as amended. Take two spiders with the same target categories and the same
  keyword list, each in an interpreter whose \<^verbatim>\<open>list(set(xs))\<close> lists the elements
  of \<open>xs\<close>. On the same page they yield the same events in the same order, with the
  same exception if any, but for the order in which the items list their categories;
  in the same interpreter, they yield the same events outright. A call of
  \<^verbatim>\<open>parse\<close> changes neither the target categories nor the keyword list nor the
  interpreter and only hands lines to the logger, so parsing the same page again,
  directly or after any other pages, gives the same events.
\<close>

theorem parse_up_to_category_order:
  assumes "target_categories sp' = target_categories sp"
    and "my_keywords sp' = my_keywords sp"
    and "\<And>xs. set (set_order sp xs) = set xs"
    and "\<And>xs. set (set_order sp' xs) = set xs"
  shows "list_all2 same_event (fst (parse sp response)) (fst (parse sp' response))
       \<and> snd (parse sp response) = snd (parse sp' response)
       \<and> (set_order sp' = set_order sp \<longrightarrow> parse sp' response = parse sp response)
       \<and> fst (run_parse (snd (run_parse sp response)) response) = fst (run_parse sp response)
       \<and> fst (run_parse (run_parses sp responses) response) = fst (run_parse sp response)
       \<and> target_categories (run_parses sp responses) = target_categories sp
       \<and> my_keywords (run_parses sp responses) = my_keywords sp
       \<and> set_order (run_parses sp responses) = set_order sp"
proof -
  have related: "list_all2 same_event (fst (parse sp response)) (fst (parse sp' response))
       \<and> snd (parse sp response) = snd (parse sp' response)"
  proof (cases "collect_anchors (nav_hrefs response)")
    case (Inl e)
    then show ?thesis by (simp add: parse_def)
  next
    case (Inr anchors)
    then show ?thesis
      using parse_dts_same [OF assms, of response anchors "dts response"]
      by (simp add: parse_def)
  qed
  have same_run: "set_order sp' = set_order sp \<longrightarrow> parse sp' response = parse sp response"
    using parse_cong [OF assms(1,2)] by simp
  obtain ls where one: "snd (run_parse sp response) = sp\<lparr>logged := ls\<rparr>"
    using run_parse_snd by blast
  obtain ls' where many: "run_parses sp responses = sp\<lparr>logged := ls'\<rparr>"
    using run_parses_logged by blast
  have unread: "parse (sp\<lparr>logged := lines\<rparr>) response = parse sp response" for lines
    by (rule parse_cong) simp_all
  have again: "fst (run_parse (snd (run_parse sp response)) response) = fst (run_parse sp response)"
    by (simp only: one) (simp add: run_parse_def unread)
  have later: "fst (run_parse (run_parses sp responses) response) = fst (run_parse sp response)"
    by (simp only: many) (simp add: run_parse_def unread)
  have config: "target_categories (run_parses sp responses) = target_categories sp
     \<and> my_keywords (run_parses sp responses) = my_keywords sp
     \<and> set_order (run_parses sp responses) = set_order sp"
    by (simp add: many)
  show ?thesis
    using related same_run again later config by - (elim conjE, intro conjI, assumption+)
qed

theorem parse_up_to_category_order_witness:
  "target_categories other_interpreter = target_categories (init None)
   \<and> my_keywords other_interpreter = my_keywords (init None)
   \<and> list_all2 same_event (fst (parse (init None) two_category_page))
        (fst (parse other_interpreter two_category_page))
   \<and> snd (parse (init None) two_category_page) = snd (parse other_interpreter two_category_page)
   \<and> fst (run_parse (run_parses (init None) [example_page, two_category_page]) two_category_page)
       = fst (run_parse (init None) two_category_page)"
proof -
  have a1: "target_categories other_interpreter = target_categories (init None)"
    by (simp add: other_interpreter_def)
  have a2: "my_keywords other_interpreter = my_keywords (init None)"
    by (simp add: other_interpreter_def)
  have a3: "set (set_order (init None) xs) = set xs" for xs
    by (simp add: init_def)
  have a4: "set (set_order other_interpreter xs) = set xs" for xs
    by (simp add: other_interpreter_def)
  note both = parse_up_to_category_order [OF a1 a2 a3 a4, of two_category_page
      "[example_page, two_category_page]"]
  have r1: "list_all2 same_event (fst (parse (init None) two_category_page))
        (fst (parse other_interpreter two_category_page))"
    using both by simp
  have r2: "snd (parse (init None) two_category_page)
      = snd (parse other_interpreter two_category_page)"
    using both by simp
  have r3: "fst (run_parse (run_parses (init None) [example_page, two_category_page])
                  two_category_page)
       = fst (run_parse (init None) two_category_page)"
    using both by simp
  show ?thesis
    using a1 a2 r1 r2 r3 by - (intro conjI, assumption+)
qed

text \<open>
  The claim as it stands fails across interpreters: with the same page, the same target
  categories and the same keyword list, the emitted record lists its two categories in
  one order in one interpreter and in the other order in another.
\<close>

theorem parse_order_counterexample:
  "target_categories other_interpreter = target_categories (init None)
   \<and> my_keywords other_interpreter = my_keywords (init None)
   \<and> emitted (fst (parse (init None) two_category_page))
       = [\<lparr>item_id = ''2401.00003'', item_categories = [''astro-ph.GA'', ''astro-ph.CO'']\<rparr>]
   \<and> emitted (fst (parse other_interpreter two_category_page))
       = [\<lparr>item_id = ''2401.00003'', item_categories = [''astro-ph.CO'', ''astro-ph.GA'']\<rparr>]
   \<and> parse (init None) two_category_page \<noteq> parse other_interpreter two_category_page"
proof -
  have a1: "target_categories other_interpreter = target_categories (init None)"
    by (simp add: other_interpreter_def)
  have a2: "my_keywords other_interpreter = my_keywords (init None)"
    by (simp add: other_interpreter_def)
  have one: "emitted (fst (parse (init None) two_category_page))
       = [\<lparr>item_id = ''2401.00003'', item_categories = [''astro-ph.GA'', ''astro-ph.CO'']\<rparr>]"
    by code_simp
  have other: "emitted (fst (parse other_interpreter two_category_page))
       = [\<lparr>item_id = ''2401.00003'', item_categories = [''astro-ph.CO'', ''astro-ph.GA'']\<rparr>]"
    by code_simp
  have differ: "parse (init None) two_category_page \<noteq> parse other_interpreter two_category_page"
  proof
    assume "parse (init None) two_category_page = parse other_interpreter two_category_page"
    then have "emitted (fst (parse (init None) two_category_page))
          = emitted (fst (parse other_interpreter two_category_page))"
      by (rule arg_cong)
    then show False
      by (simp add: one other)
  qed
  show ?thesis
    using a1 a2 one other differ by - (intro conjI, assumption+)
qed

subsection \<open>The title label\<close>

text \<open>
  Claim C6. The specification strips a leading label \<^verbatim>\<open>Title:\<close>, trims and
  lowercases, and leaves other occurrences of \<^verbatim>\<open>Title:\<close> alone. The spider calls
  \<^verbatim>\<open>replace("Title:", "")\<close>, which removes every occurrence: on a title with the
  label and a second \<^verbatim>\<open>Title:\<close> inside, the normalised title of the spider lacks
  the inner occurrence and differs from the normalised title of the specification.
\<close>

theorem title_label_removed_everywhere:
  "clean_title_of (Some ''Title: Notes on the Title: Page'') = ''notes on the  page''
   \<and> normalized_title ''Title: Notes on the Title: Page'' = ''notes on the title: page''
   \<and> clean_title_of (Some ''Title: Notes on the Title: Page'')
        \<noteq> normalized_title ''Title: Notes on the Title: Page''"
proof -
  have code: "clean_title_of (Some ''Title: Notes on the Title: Page'') = ''notes on the  page''"
    by code_simp
  have spec: "normalized_title ''Title: Notes on the Title: Page'' = ''notes on the title: page''"
    by code_simp
  have differ: "clean_title_of (Some ''Title: Notes on the Title: Page'')
        \<noteq> normalized_title ''Title: Notes on the Title: Page''"
    by (simp add: code spec)
  from code spec differ show ?thesis
    by - (intro conjI, assumption+)
qed

end
